theory Spec2Isabelle
  imports Complex_Main
begin

section \<open>Conventions of the embedding\<close>

text \<open>
  The sources are Python. Every exception the source can raise is a value of
  \<open>error\<close>, and a function that can raise returns \<open>error + 'a\<close> (\<open>Inl\<close> the
  exception, \<open>Inr\<close> the value returned). Scalar arguments are taken to be Python
  floats, so that a division by zero raises.

  Floating-point numbers are modelled in two ways. Where the properties are exact
  equalities (\<open>normalize\<close> and \<open>denormalize\<close> of \<open>FMMGrainSegment\<close>, the burn area
  and the propellant volume per segment of \<open>Bates\<close>), the model computes on
  binary64 doubles: a double is the real number it denotes, and each operation is
  the exact operation followed by \<open>f64_round\<close>. Elsewhere (the arithmetic of the
  mass flux, the nozzle functions) floating-point numbers are idealised as the real
  numbers, without rounding and without overflow; what is proved there is a bound,
  a branch taken or an exception raised, and does not rest on the last digit.

  Some operations leave the finite numbers without raising: a double operation that
  overflows (an infinity), a negative base under a fractional power (Python answers
  with a complex number), and, in numpy, the square root of a negative number and a
  division by zero (NaN or an infinity, with a warning). The model stops there with
  \<open>NonReal\<close>; it makes no statement about what the program does afterwards.

  \<open>NonConvergenceError\<close> is the error the spec names for the exit Mach solver; no line
  of the sources raises it.
\<close>

datatype error =
    ZeroDivisionError
  | UnboundLocalError
  | NameError
  | TypeError
  | IndexError
  | ValueError
  | GrainGeometryError
  | NonConvergenceError
  | NonReal

definition then_do :: "error + 'a \<Rightarrow> ('a \<Rightarrow> error + 'b) \<Rightarrow> error + 'b" where
  "then_do m f = (case m of Inl e \<Rightarrow> Inl e | Inr v \<Rightarrow> f v)"

text \<open>Python's \<open>a / b\<close> and \<open>a ** b\<close> on floats.\<close>

definition py_div :: "real \<Rightarrow> real \<Rightarrow> error + real" where
  "py_div a b = (if b = 0 then Inl ZeroDivisionError else Inr (a / b))"

definition py_pow :: "real \<Rightarrow> real \<Rightarrow> error + real" where
  "py_pow a b =
     (if b = 0 then Inr 1
      else if a = 0 then (if b < 0 then Inl ZeroDivisionError else Inr 0)
      else if a > 0 then Inr (a powr b)
      else if b = of_int \<lfloor>b\<rfloor> then Inr (a powi \<lfloor>b\<rfloor>)
      else Inl NonReal)"

text \<open>The same on numpy's \<open>float64\<close>, and \<open>np.sqrt\<close>: these warn and never raise.\<close>

definition np_div :: "real \<Rightarrow> real \<Rightarrow> error + real" where
  "np_div a b = (if b = 0 then Inl NonReal else Inr (a / b))"

definition np_pow :: "real \<Rightarrow> real \<Rightarrow> error + real" where
  "np_pow a b =
     (if b = 0 then Inr 1
      else if a = 0 then (if b < 0 then Inl NonReal else Inr 0)
      else if a > 0 then Inr (a powr b)
      else if b = of_int \<lfloor>b\<rfloor> then Inr (a powi \<lfloor>b\<rfloor>)
      else Inl NonReal)"

definition np_sqrt :: "real \<Rightarrow> error + real" where
  "np_sqrt a = (if a < 0 then Inl NonReal else Inr (sqrt a))"

subsection \<open>Binary64 arithmetic\<close>

text \<open>
  \<open>rne\<close> rounds a real number to the nearest integer, a tie to the even one.
  Doubles around \<open>x\<close> are the multiples of \<open>2 ^ f64_quantum x\<close>: 53 significant
  bits, and never finer than \<open>2 ^ - 1074\<close> (gradual underflow). \<open>f64_round x\<close> is the
  double nearest to \<open>x\<close>, or an infinity (\<open>NonReal\<close>) from \<open>2 ^ 1024\<close> on. Zero
  carries no sign here: \<open>-0.0\<close> is 0.
\<close>

definition rne :: "real \<Rightarrow> int" where
  "rne y =
     (let f = \<lfloor>y\<rfloor> in
      if y - of_int f < 1 / 2 then f
      else if y - of_int f > 1 / 2 then f + 1
      else if even f then f else f + 1)"

definition f64_quantum :: "real \<Rightarrow> int" where
  "f64_quantum x = max (\<lfloor>log 2 \<bar>x\<bar>\<rfloor> - 52) (- 1074)"

definition f64_round :: "real \<Rightarrow> error + real" where
  "f64_round x =
     (if x = 0 then Inr 0
      else let q = f64_quantum x; y = of_int (rne (x / 2 powi q)) * 2 powi q
           in if \<bar>y\<bar> < 2 powi 1024 then Inr y else Inl NonReal)"

text \<open>
  The four operations on doubles. Addition, subtraction and multiplication never
  raise; the division of Python floats raises on a zero divisor.
\<close>

definition f64_add :: "real \<Rightarrow> real \<Rightarrow> error + real" where
  "f64_add a b = f64_round (a + b)"

definition f64_sub :: "real \<Rightarrow> real \<Rightarrow> error + real" where
  "f64_sub a b = f64_round (a - b)"

definition f64_mul :: "real \<Rightarrow> real \<Rightarrow> error + real" where
  "f64_mul a b = f64_round (a * b)"

definition f64_div :: "real \<Rightarrow> real \<Rightarrow> error + real" where
  "f64_div a b = (if b = 0 then Inl ZeroDivisionError else f64_round (a / b))"


text \<open>\<open>np.pi\<close>, the double nearest to \<open>\<pi>\<close>.\<close>

definition np_pi :: real where
  "np_pi = 884279719003555 / 2 ^ 48"

text \<open>
  Reading \<open>xs[i]\<close> from a one-dimensional array: an index below zero counts from
  the end, an index outside the array raises.
\<close>

definition np_get :: "'a list \<Rightarrow> int \<Rightarrow> error + 'a" where
  "np_get xs i =
     (if 0 \<le> i \<and> i < int (length xs) then Inr (xs ! nat i)
      else if - int (length xs) \<le> i \<and> i < 0 then Inr (xs ! nat (int (length xs) + i))
      else Inl IndexError)"

text \<open>\<open>m[j, i]\<close> and \<open>m[j, i] = v\<close> on a two-dimensional array, a list of rows.\<close>

definition np_get2 :: "real list list \<Rightarrow> int \<Rightarrow> int \<Rightarrow> error + real" where
  "np_get2 m j i = then_do (np_get m j) (\<lambda>row. np_get row i)"

definition np_set :: "'a list \<Rightarrow> int \<Rightarrow> 'a \<Rightarrow> error + 'a list" where
  "np_set xs i v =
     (if 0 \<le> i \<and> i < int (length xs) then Inr (xs[nat i := v])
      else if - int (length xs) \<le> i \<and> i < 0 then Inr (xs[nat (int (length xs) + i) := v])
      else Inl IndexError)"

definition np_set2 :: "real list list \<Rightarrow> int \<Rightarrow> int \<Rightarrow> real \<Rightarrow> error + real list list" where
  "np_set2 m j i v =
     then_do (np_get m j) (\<lambda>row. then_do (np_set row i v) (\<lambda>row'. np_set m j row'))"

text \<open>\<open>np.zeros((r, c))\<close>: a negative dimension is refused.\<close>

definition np_zeros2 :: "int \<Rightarrow> nat \<Rightarrow> error + real list list" where
  "np_zeros2 r c = (if r < 0 then Inl ValueError else Inr (replicate (nat r) (replicate c 0)))"

text \<open>\<open>range(n)\<close>, and a \<open>for\<close> loop whose body may raise.\<close>

definition py_range :: "int \<Rightarrow> int list" where
  "py_range n = [0..n - 1]"

fun for_each :: "'i list \<Rightarrow> ('i \<Rightarrow> 's \<Rightarrow> error + 's) \<Rightarrow> 's \<Rightarrow> error + 's" where
  "for_each [] body s = Inr s"
| "for_each (i # rest) body s = then_do (body i s) (for_each rest body)"

section \<open>FMMGrainSegment (rocketsolver/models/propulsion/grain/fmm)\<close>

text \<open>The field \<open>length\<close> of the class is \<open>length_seg\<close> here.\<close>

record FMMGrainSegment =
  map_dim :: int
  length_seg :: real
  outer_diameter :: real
  spacing :: real
  inhibited_ends :: int

text \<open>
  Modelled from the spec: the decorator \<open>validate_assertions\<close> of
  \<open>rocketsolver.utils.decorators\<close>, which is not among the sources. \<open>validate\<close> is
  decorated with \<open>validate_assertions(exception=GrainGeometryError)\<close>, and the spec has
  \<open>validate\<close> fail with a geometry error on an insufficient grid resolution: a
  failing \<open>assert\<close> becomes the exception the decorator is given. The method starts
  with \<open>super().validate()\<close>; the parent class is not among the sources either, and
  its validation is the parameter \<open>super_validate\<close>.
\<close>

definition validate ::
  "(FMMGrainSegment \<Rightarrow> error + FMMGrainSegment) \<Rightarrow> FMMGrainSegment \<Rightarrow> error + FMMGrainSegment"
where
  "validate super_validate self =
     then_do (super_validate self) (\<lambda>s.
       if map_dim s \<ge> 100 then Inr (s\<lparr>map_dim := 10\<rparr>) else Inl GrainGeometryError)"



section \<open>Bates (srm_solver/models/motor/bates.py)\<close>

record Bates =
  segment_count :: int
  segment_spacing :: real
  outer_diameter :: real
  core_diameter :: "real list"
  segment_length :: "real list"

text \<open>
  The two methods per segment, operation by operation in the order of the source.
  \<open>x ** 2\<close> is the \<open>pow\<close> of the C library, which can differ from the double
  nearest to \<open>x * x\<close> in the last place; the model takes the correctly rounded
  square. Where a property below evaluates a square, the square is a double itself,
  or it is subtracted from the square of the same double.
\<close>

definition get_burn_area_per_segment :: "Bates \<Rightarrow> int \<Rightarrow> real \<Rightarrow> error + real" where
  "get_burn_area_per_segment self segment_index web_thickness =
     then_do (np_get (core_diameter self) segment_index) (\<lambda>D_core.
     then_do (f64_sub (outer_diameter self) D_core) (\<lambda>diff.
     then_do (f64_mul 0.5 diff) (\<lambda>wall.
       if wall \<ge> web_thickness then
         then_do (f64_mul (outer_diameter self) (outer_diameter self)) (\<lambda>D2.
         then_do (f64_mul 2 web_thickness) (\<lambda>w2.
         then_do (f64_add D_core w2) (\<lambda>c.
         then_do (f64_mul c c) (\<lambda>c2.
         then_do (f64_sub D2 c2) (\<lambda>d.
         then_do (f64_div d 2) (\<lambda>ends.
         then_do (np_get (segment_length self) segment_index) (\<lambda>L_grain.
         then_do (f64_sub L_grain w2) (\<lambda>l.
         then_do (f64_mul l c) (\<lambda>core.
         then_do (f64_add ends core) (\<lambda>total.
           f64_mul np_pi total))))))))))
       else Inr 0)))"

definition get_propellant_volume_per_segment :: "Bates \<Rightarrow> real \<Rightarrow> int \<Rightarrow> error + real" where
  "get_propellant_volume_per_segment self x j =
     then_do (np_get (core_diameter self) j) (\<lambda>D_core.
     then_do (f64_sub (outer_diameter self) D_core) (\<lambda>diff.
     then_do (f64_mul 0.5 diff) (\<lambda>wall.
       if wall \<ge> x then
         then_do (f64_div np_pi 4) (\<lambda>quarter_pi.
         then_do (f64_mul (outer_diameter self) (outer_diameter self)) (\<lambda>D2.
         then_do (f64_mul 2 x) (\<lambda>w2.
         then_do (f64_add D_core w2) (\<lambda>c.
         then_do (f64_mul c c) (\<lambda>c2.
         then_do (f64_sub D2 c2) (\<lambda>d.
         then_do (np_get (segment_length self) j) (\<lambda>L_grain.
         then_do (f64_sub L_grain w2) (\<lambda>l.
         then_do (f64_mul d l) (\<lambda>annulus.
           f64_mul quarter_pi annulus)))))))))
       else Inr 0)))"

text \<open>\<open>np.sum\<close> is taken to add without rounding; nothing below depends on its value.\<close>

definition get_burn_area :: "Bates \<Rightarrow> real \<Rightarrow> error + real" where
  "get_burn_area self x =
     then_do
       (for_each (py_range (segment_count self))
          (\<lambda>i burn_areas. then_do (get_burn_area_per_segment self i x)
                             (\<lambda>a. Inr (burn_areas @ [a])))
          [])
       (\<lambda>burn_areas. Inr (sum_list burn_areas))"

text \<open>
  A call of the method \<open>get_burn_area\<close> with the positional arguments \<open>args\<close>
  (after \<open>self\<close>). The method is declared \<open>get_burn_area(self, x)\<close>: any other
  number of arguments is a \<open>TypeError\<close> of the call.
\<close>

definition call_get_burn_area :: "Bates \<Rightarrow> real list \<Rightarrow> error + real" where
  "call_get_burn_area self args = (case args of [x] \<Rightarrow> get_burn_area self x | _ \<Rightarrow> Inl TypeError)"

text \<open>
  \<open>get_mass_flux_per_segment\<close>. The state of the loops is the pair
  \<open>(segment_mass_flux, total_grain_Ab)\<close>. \<open>get_circle_area\<close> is imported from
  \<open>utils.geometric\<close>, which is not among the sources: it is a parameter.
\<close>

definition mass_flux_k_step ::
  "Bates \<Rightarrow> real list \<Rightarrow> int \<Rightarrow> int \<Rightarrow> int \<Rightarrow> real list list \<Rightarrow> error + real list list"
where
  "mass_flux_k_step self x j i k total_grain_Ab =
     then_do (np_get2 total_grain_Ab j i) (\<lambda>old.
     then_do (np_get x i) (\<lambda>xi.
     then_do (call_get_burn_area self [xi, of_int k]) (\<lambda>a.
       np_set2 total_grain_Ab j i (old + a))))"

definition mass_flux_i_step ::
  "(real \<Rightarrow> real) \<Rightarrow> Bates \<Rightarrow> real list \<Rightarrow> real \<Rightarrow> real list \<Rightarrow> int \<Rightarrow> int \<Rightarrow>
     real list list \<times> real list list \<Rightarrow> error + real list list \<times> real list list"
where
  "mass_flux_i_step get_circle_area self burn_rate propellant_density x j i st =
     (case st of (segment_mass_flux, total_grain_Ab) \<Rightarrow>
        then_do (for_each (py_range (j + 1)) (mass_flux_k_step self x j i) total_grain_Ab) (\<lambda>tab.
        then_do (np_get2 tab j i) (\<lambda>ab.
        then_do (np_get burn_rate i) (\<lambda>r.
        then_do (np_set2 segment_mass_flux j i (ab * propellant_density * r)) (\<lambda>smf.
        then_do (np_get2 smf j i) (\<lambda>f.
        then_do (np_get (core_diameter self) j) (\<lambda>dc.
        then_do (np_get x i) (\<lambda>xi.
        then_do (np_div f (get_circle_area (dc + xi))) (\<lambda>q.
        then_do (np_set2 smf j i q) (\<lambda>smf'. Inr (smf', tab)))))))))))"

definition get_mass_flux_per_segment ::
  "(real \<Rightarrow> real) \<Rightarrow> Bates \<Rightarrow> real list \<Rightarrow> real \<Rightarrow> real list \<Rightarrow> error + real list list"
where
  "get_mass_flux_per_segment get_circle_area self burn_rate propellant_density x =
     then_do (np_zeros2 (segment_count self) (length x)) (\<lambda>_.
     then_do (np_zeros2 (segment_count self) (length x)) (\<lambda>segment_mass_flux.
     then_do (np_zeros2 (segment_count self) (length x)) (\<lambda>total_grain_Ab.
     then_do
       (for_each (py_range (segment_count self))
          (\<lambda>j. for_each (py_range (int (length burn_rate)))
                 (mass_flux_i_step get_circle_area self burn_rate propellant_density x j))
          (segment_mass_flux, total_grain_Ab))
       (\<lambda>st. Inr (fst st)))))"

section \<open>Isentropic flow (srm_solver/functions/isentropic_flow.py)\<close>

text \<open>
  The names the module binds: its only import, \<open>import numpy as np\<close>, and the nine
  functions it defines. A function of the module that reads another global name
  (none of those read below is a builtin) raises \<open>NameError\<close>. \<open>load_global name v\<close>
  is that lookup; \<open>v\<close> is the value the name would have if it were bound.
\<close>

definition isentropic_flow_globals :: "string list" where
  "isentropic_flow_globals =
     [''np'', ''get_critical_pressure'', ''get_opt_expansion_ratio'', ''get_exit_mach'',
      ''get_exit_pressure'', ''get_thrust_coeff'', ''get_impulses'',
      ''get_operational_correction_factors'', ''get_expansion_ratio'']"

definition load_global :: "string \<Rightarrow> 'a \<Rightarrow> error + 'a" where
  "load_global name v = (if name \<in> set isentropic_flow_globals then Inr v else Inl NameError)"

text \<open>
  \<open>get_exit_mach\<close> reads the name \<open>scipy\<close>, hands a residual function and the
  initial guess \<open>[10]\<close> to \<open>scipy.optimize.fsolve\<close> and returns the first entry of
  the array that comes back. The solver belongs to a library, not to the sources: it
  is the parameter \<open>fsolve\<close>. The residual is the \<open>lambda\<close> of the source; the
  solver applies it to numpy arrays, so only the exponent, a quotient of Python
  floats, can raise.
\<close>

definition exit_mach_residual :: "real \<Rightarrow> real \<Rightarrow> real \<Rightarrow> error + real" where
  "exit_mach_residual k E x =
     then_do (np_div (1 + 0.5 * (k - 1) * x\<^sup>2) (1 + 0.5 * (k - 1))) (\<lambda>b.
     then_do (py_div (k + 1) (2 * (k - 1))) (\<lambda>e.
     then_do (np_pow b e) (\<lambda>p.
     then_do (np_div p x) (\<lambda>q. Inr (q - E)))))"

definition get_exit_mach ::
  "((real \<Rightarrow> error + real) \<Rightarrow> real list \<Rightarrow> error + real list) \<Rightarrow> real \<Rightarrow> real \<Rightarrow> error + real"
where
  "get_exit_mach fsolve k E =
     then_do (load_global ''scipy'' fsolve) (\<lambda>solver.
     then_do (solver (exit_mach_residual k E) [10]) (\<lambda>M_exit. np_get M_exit 0))"

definition get_thrust_coeff ::
  "real \<Rightarrow> real \<Rightarrow> real \<Rightarrow> real \<Rightarrow> real \<Rightarrow> real \<Rightarrow> error + real \<times> real"
where
  "get_thrust_coeff P0 P_exit P_external E k n_cf =
     then_do (py_div P_exit P0) (\<lambda>P_r.
     then_do (py_div (2 * k\<^sup>2) (k - 1)) (\<lambda>a.
     then_do (py_div 2 (k + 1)) (\<lambda>b.
     then_do (py_div (k + 1) (k - 1)) (\<lambda>e1.
     then_do (py_pow b e1) (\<lambda>c.
     then_do (py_div (k - 1) k) (\<lambda>e2.
     then_do (py_pow P_r e2) (\<lambda>d.
     then_do (np_sqrt (a * c * (1 - d))) (\<lambda>Cf_ideal.
     then_do (py_div (E * (P_exit - P_external)) P0) (\<lambda>g.
       Inr (let Cf = (Cf_ideal + g) * n_cf
            in (if Cf \<le> 0 then 0 else Cf, if Cf_ideal \<le> 0 then 0 else Cf_ideal)))))))))))"

record Propellant =
  Isp_frozen :: real
  Isp_shifting :: real
  qsi_ch :: real
  M_ch :: real

record Structure =
  C1 :: real
  C2 :: real
  D_throat :: real
  Exp_ratio :: real

text \<open>
  The table of lines 110 to 135 of \<open>get_operational_correction_factors\<close>. It
  assigns the local variable \<open>C4\<close> and the triple \<open>C3, C5, C6\<close>; \<open>None\<close> is a
  variable that no branch has assigned.
\<close>

definition correction_constants ::
  "real \<Rightarrow> real \<Rightarrow> real \<Rightarrow> error + real option \<times> (real \<times> real \<times> real) option"
where
  "correction_constants M D C7 =
     then_do (py_div 1 M) (\<lambda>r.
       if r \<ge> 0.9 then
         Inr (Some 0.5,
              if D / 0.0254 < 1 then Some (9, 1, 1)
              else if 1 \<le> D / 0.0254 \<and> D / 0.0254 < 2 then Some (9, 1, 0.8)
              else if D / 0.0254 \<ge> 2 then
                (if C7 < 4 then Some (13.4, 0.8, 0.8)
                 else if 4 \<le> C7 \<and> C7 \<le> 8 then Some (10.2, 0.8, 0.4)
                 else if C7 > 8 then Some (7.58, 0.8, 0.33)
                 else None)
              else None)
       else if r < 0.9 then
         Inr (Some 1,
              if D / 0.0245 < 1 then Some (44.5, 0.8, 0.8)
              else if 1 \<le> D / 0.0254 \<and> D / 0.0254 < 2 then Some (30.4, 0.8, 0.4)
              else if D / 0.0254 \<ge> 2 then
                (if C7 < 4 then Some (44.5, 0.8, 0.8)
                 else if 4 \<le> C7 \<and> C7 \<le> 8 then Some (30.4, 0.8, 0.4)
                 else if C7 > 8 then Some (25.2, 0.8, 0.33)
                 else None)
              else None)
       else Inr (None, None))"

text \<open>
  Line 136: \<open>n_tp = C3 * ((qsi_ch * C4 * C7 ** C5) / (P0_psi ** 0.15 * Exp_ratio ** 0.08 *
  (D_throat / 0.0254) ** C6))\<close>. The operands are read from left to right, and reading
  a local variable that was never assigned raises \<open>UnboundLocalError\<close>. \<open>C7\<close> is a
  numpy scalar, so the power of \<open>C7\<close> and the quotient are numpy's.
\<close>

definition two_phase_loss ::
  "real \<Rightarrow> real \<Rightarrow> real \<Rightarrow> real \<Rightarrow> real \<Rightarrow> real option \<times> (real \<times> real \<times> real) option \<Rightarrow> error + real"
where
  "two_phase_loss P0_psi qsi E D C7 consts =
     (case snd consts of
        None \<Rightarrow> Inl UnboundLocalError
      | Some (C3, C5, C6) \<Rightarrow>
          (case fst consts of
             None \<Rightarrow> Inl UnboundLocalError
           | Some C4 \<Rightarrow>
               then_do (np_pow C7 C5) (\<lambda>p.
               then_do (py_pow P0_psi 0.15) (\<lambda>a.
               then_do (py_pow E 0.08) (\<lambda>b.
               then_do (py_pow (D / 0.0254) C6) (\<lambda>c.
               then_do (np_div (qsi * C4 * p) (a * b * c)) (\<lambda>q. Inr (C3 * q))))))))"

text \<open>
  \<open>get_operational_correction_factors\<close>. Line 108 reads the name
  \<open>get_circle_area\<close>, which the module neither defines nor imports; the parameter
  \<open>get_circle_area\<close> is the function the name would denote.
\<close>

definition get_operational_correction_factors ::
  "(real \<Rightarrow> real) \<Rightarrow> real \<Rightarrow> real \<Rightarrow> real \<Rightarrow> Propellant \<Rightarrow> Structure \<Rightarrow> real \<Rightarrow> real \<Rightarrow> real
     \<Rightarrow> error + real \<times> real \<times> real"
where
  "get_operational_correction_factors get_circle_area P0 P_external P0_psi propellant structure
       critical_pressure_ratio V0 t =
     then_do
       (if P0_psi \<ge> 200 then
          then_do (py_div (Isp_frozen propellant) (Isp_shifting propellant)) (\<lambda>r.
            py_div (33.3 * 200 * r) P0_psi)
        else Inr 0)
       (\<lambda>n_kin.
     then_do (py_div P_external P0) (\<lambda>ratio.
       if ratio \<le> critical_pressure_ratio then
         then_do (py_pow P0_psi 0.8) (\<lambda>p8.
         then_do (py_pow (D_throat structure / 0.0254) 0.2) (\<lambda>d2.
         then_do (py_div (- C2 structure * p8 * t) d2) (\<lambda>q.
         then_do (py_pow (Exp_ratio structure) (- 9)) (\<lambda>e9.
         then_do (py_div p8 d2) (\<lambda>q2.
         then_do (py_pow P0_psi 0.33) (\<lambda>p33.
         then_do (py_pow (qsi_ch propellant) 0.33) (\<lambda>s33.
         then_do (load_global ''get_circle_area'' get_circle_area) (\<lambda>circle_area.
         then_do (py_div V0 (circle_area (D_throat structure))) (\<lambda>va.
           let termC2 = 1 + 2 * exp q;
               E_cf = 1 + 0.016 * e9;
               n_bl = C1 structure * q2 * termC2 * E_cf;
               C7 = 0.454 * p33 * s33
                      * (1 - exp (- 0.004 * va / 0.0254) * (1 + 0.045 * D_throat structure / 0.0254))
           in
             then_do (correction_constants (M_ch propellant) (D_throat structure) C7) (\<lambda>consts.
             then_do (two_phase_loss P0_psi (qsi_ch propellant) (Exp_ratio structure)
                        (D_throat structure) C7 consts) (\<lambda>n_tp.
               Inr (n_kin, n_tp, n_bl))))))))))))
       else Inr (n_kin, 0, 0)))"

section \<open>Instances for the parameters\<close>


section \<open>Properties\<close>

subsection \<open>Auxiliary facts\<close>

lemma then_do_Inr: "then_do (Inr v) f = f v"
  by (simp add: then_do_def)

lemma then_do_Inl: "then_do (Inl e) f = Inl e"
  by (simp add: then_do_def)

lemma py_div_defined: "b \<noteq> 0 \<Longrightarrow> py_div a b = Inr (a / b)"
  by (simp add: py_div_def)

lemma py_pow_nonneg:
  assumes "0 \<le> a" and "0 < b"
  shows "py_pow a b = Inr (a powr b)"
  using assms by (simp add: py_pow_def)

lemma py_pow_minus_nine:
  assumes "a \<noteq> 0"
  shows "\<exists>v. py_pow a (- 9) = Inr v"
  using assms by (simp add: py_pow_def)

lemma np_pow_pos: "0 < a \<Longrightarrow> b \<noteq> 0 \<Longrightarrow> np_pow a b = Inr (a powr b)"
  by (simp add: np_pow_def)

subsection \<open>Rounding to the nearest double\<close>


lemma rne_of_int: "rne (of_int k) = k"
  by (simp add: rne_def)

lemma two_powi_powr: "(2::real) powi b = 2 powr (of_int b)"
  by (simp add: powr_real_of_int')

lemma floor_log2_eq:
  assumes "2 powi b \<le> \<bar>x\<bar>" and "\<bar>x\<bar> < 2 powi (b + 1)"
  shows "\<lfloor>log 2 \<bar>x\<bar>\<rfloor> = b"
proof -
  have "0 < (2::real) powi b" by simp
  with assms(1) have pos: "0 < \<bar>x\<bar>" by linarith
  show ?thesis
    using assms pos by (simp add: floor_log_eq_powr_iff two_powi_powr)
qed

lemma floor_log2_bounds:
  assumes "x \<noteq> 0"
  shows "2 powi \<lfloor>log 2 \<bar>x\<bar>\<rfloor> \<le> \<bar>x\<bar>" and "\<bar>x\<bar> < 2 powi (\<lfloor>log 2 \<bar>x\<bar>\<rfloor> + 1)"
proof -
  have pos: "0 < \<bar>x\<bar>" using assms by simp
  have "2 powr (of_int \<lfloor>log 2 \<bar>x\<bar>\<rfloor>) \<le> \<bar>x\<bar> \<and> \<bar>x\<bar> < 2 powr (of_int (\<lfloor>log 2 \<bar>x\<bar>\<rfloor> + 1))"
    using floor_log_eq_powr_iff [of "\<bar>x\<bar>" 2 "\<lfloor>log 2 \<bar>x\<bar>\<rfloor>"] pos by simp
  then show "2 powi \<lfloor>log 2 \<bar>x\<bar>\<rfloor> \<le> \<bar>x\<bar>" and "\<bar>x\<bar> < 2 powi (\<lfloor>log 2 \<bar>x\<bar>\<rfloor> + 1)"
    by (simp_all only: two_powi_powr)
qed

lemma two_powi_less_imp_less:
  assumes "(2::real) powi m < 2 powi n"
  shows "m < n"
proof (rule ccontr)
  assume "\<not> m < n"
  then have "n \<le> m" by simp
  then have "(2::real) powi n \<le> 2 powi m" by (intro power_int_increasing) simp_all
  with assms show False by simp
qed

lemma f64_round_eval:
  assumes "2 powi b \<le> \<bar>x\<bar>" and "\<bar>x\<bar> < 2 powi (b + 1)"
    and "q = max (b - 52) (- 1074)"
    and "y = of_int (rne (x / 2 powi q)) * 2 powi q"
    and "\<bar>y\<bar> < 2 powi 1024"
  shows "f64_round x = Inr y"
proof -
  have "0 < (2::real) powi b" by simp
  with assms(1) have "0 < \<bar>x\<bar>" by linarith
  then have "x \<noteq> 0" by simp
  moreover have "f64_quantum x = q"
    using floor_log2_eq [OF assms(1,2)] assms(3) by (simp add: f64_quantum_def)
  ultimately show ?thesis
    using assms(4,5) by (simp add: f64_round_def Let_def)
qed

lemma f64_quantum_le:
  assumes "x = of_int m * 2 powi e" and "m \<noteq> 0" and "\<bar>m\<bar> < 2 ^ 53" and "- 1074 \<le> e"
  shows "f64_quantum x \<le> e"
proof -
  have x_nz: "x \<noteq> 0" using assms(1,2) by simp
  have "\<bar>x\<bar> = of_int \<bar>m\<bar> * 2 powi e" using assms(1) by (simp add: abs_mult)
  also have "\<dots> < 2 ^ 53 * 2 powi e"
  proof -
    have "(of_int \<bar>m\<bar> :: real) < of_int (2 ^ 53)" using assms(3) by (simp only: of_int_less_iff)
    then show ?thesis by simp
  qed
  also have "\<dots> = 2 powi (53 + e)" by (simp add: power_int_add)
  finally have upper: "\<bar>x\<bar> < 2 powi (53 + e)" .
  have "2 powi \<lfloor>log 2 \<bar>x\<bar>\<rfloor> \<le> \<bar>x\<bar>" using floor_log2_bounds(1) [OF x_nz] .
  with upper have "(2::real) powi \<lfloor>log 2 \<bar>x\<bar>\<rfloor> < 2 powi (53 + e)" by linarith
  then have "\<lfloor>log 2 \<bar>x\<bar>\<rfloor> < 53 + e" by (rule two_powi_less_imp_less)
  then show ?thesis using assms(4) by (simp add: f64_quantum_def)
qed

lemma f64_round_exact:
  assumes "x = of_int m * 2 powi e" and "\<bar>m\<bar> < 2 ^ 53" and "- 1074 \<le> e"
    and "\<bar>x\<bar> < 2 powi 1024"
  shows "f64_round x = Inr x"
proof (cases "m = 0")
  case True
  then show ?thesis using assms(1) by (simp add: f64_round_def)
next
  case False
  define q where "q = f64_quantum x"
  have q: "q \<le> e" unfolding q_def using assms(1) False assms(2,3) by (rule f64_quantum_le)
  have x_nz: "x \<noteq> 0" using assms(1) False by simp
  have "x / 2 powi q = of_int m * 2 powi (e - q)"
    using assms(1) by (simp add: power_int_diff)
  also have "\<dots> = of_int m * 2 ^ nat (e - q)"
    using q by (simp add: power_int_def)
  also have "\<dots> = of_int (m * 2 ^ nat (e - q))" by simp
  finally have scaled: "x / 2 powi q = of_int (m * 2 ^ nat (e - q))" .
  have "of_int (rne (x / 2 powi q)) * 2 powi q = x / 2 powi q * 2 powi q"
    by (simp only: scaled rne_of_int)
  also have "\<dots> = x" by simp
  finally have "of_int (rne (x / 2 powi q)) * 2 powi q = x" .
  then show ?thesis
    using x_nz assms(4) by (simp add: f64_round_def Let_def q_def [symmetric])
qed













subsection \<open>FMMGrainSegment\<close>

text \<open>Whatever the parent's validation does, a call of \<open>validate\<close> that returns leaves 10.\<close>

lemma validate_map_dim_after:
  assumes "validate super_validate self = Inr s'"
  shows "map_dim s' = 10"
  using assms by (auto simp add: validate_def then_do_def split: sum.splits if_splits)

text \<open>
  C1. The claim: after a call of \<open>validate\<close> that returns, \<open>map_dim \<ge> 100\<close>.
  The source asserts \<open>map_dim >= 100\<close> and then stores 10 in \<open>map_dim\<close>: on a
  segment of resolution 100 whose parent validation passes, the call returns and
  leaves \<open>map_dim = 10\<close>.
\<close>

theorem validate_overwrites_map_dim:
  "validate Inr \<lparr>map_dim = 100, length_seg = 1, FMMGrainSegment.outer_diameter = 1,
                  spacing = 0, inhibited_ends = 0\<rparr>
     = Inr \<lparr>map_dim = 10, length_seg = 1, FMMGrainSegment.outer_diameter = 1,
             spacing = 0, inhibited_ends = 0\<rparr>"
  by (simp add: validate_def then_do_def)




subsection \<open>Bates\<close>

text \<open>
  C2, as the claim states it, fails, in both of its cases. First case: the segment
  of the scenario (outer diameter 0.115, core 0.045, length 0.2, as doubles) at
  the web \<open>0.5 * (0.115 - 0.045)\<close> as the code computes it, where the wall is
  burned through radially. The guard of the source is \<open>\<ge>\<close>, so the formula is
  used there, and the burn area is \<open>0.04696681017116741\<close>. Second case: a segment of
  outer diameter 3, core 0.5 and length 0.5 at the web 0.25, burned through
  along the axis (\<open>2 * web \<ge> segment_length\<close>): nothing in the source tests the
  length, and the burn area is \<open>12.566370614359172\<close>. Doubles that are not short
  binary fractions are written as quotients: 0.115 is \<open>8286623314361713 / 2 ^ 56\<close>,
  0.045 is \<open>3242591731706757 / 2 ^ 56\<close>, 0.2 is \<open>3602879701896397 / 2 ^ 54\<close>, and
  the web computed, 0.035, is \<open>1261007895663739 / 2 ^ 55\<close>.
\<close>

theorem burn_area_not_zero_when_burned_through:
  "f64_sub (8286623314361713 / 2 ^ 56) (3242591731706757 / 2 ^ 56) = Inr (1261007895663739 / 2 ^ 54)
   \<and> f64_mul 0.5 (1261007895663739 / 2 ^ 54) = Inr (1261007895663739 / 2 ^ 55)
   \<and> get_burn_area_per_segment
        \<lparr>segment_count = 1, segment_spacing = 0, outer_diameter = 8286623314361713 / 2 ^ 56,
          core_diameter = [3242591731706757 / 2 ^ 56], segment_length = [3602879701896397 / 2 ^ 54]\<rparr>
        0 (1261007895663739 / 2 ^ 55) = Inr (1692157670285203 / 2 ^ 55)
   \<and> 2 * (0.25 :: real) \<ge> 0.5
   \<and> get_burn_area_per_segment
        \<lparr>segment_count = 1, segment_spacing = 0, outer_diameter = 3,
          core_diameter = [0.5], segment_length = [0.5]\<rparr>
        0 (0.25) = Inr (884279719003555 / 2 ^ 46)"
proof -
  have first: "f64_sub (8286623314361713 / 2 ^ 56) (3242591731706757 / 2 ^ 56) = Inr (1261007895663739 / 2 ^ 54)
   \<and> f64_mul 0.5 (1261007895663739 / 2 ^ 54) = Inr (1261007895663739 / 2 ^ 55)
   \<and> get_burn_area_per_segment
        \<lparr>segment_count = 1, segment_spacing = 0, outer_diameter = 8286623314361713 / 2 ^ 56,
          core_diameter = [3242591731706757 / 2 ^ 56], segment_length = [3602879701896397 / 2 ^ 54]\<rparr>
        0 (1261007895663739 / 2 ^ 55) = Inr (1692157670285203 / 2 ^ 55)"
  proof -
    have s1: "f64_sub (8286623314361713 / 72057594037927936) (3242591731706757 / 72057594037927936) = Inr (1261007895663739 / 18014398509481984)"
      unfolding f64_sub_def
      by (rule f64_round_eval [where b = "-4" and q = "-56"])
         (simp_all add: power_int_minus rne_def)
    have s2: "f64_mul (1 / 2) (1261007895663739 / 18014398509481984) = Inr (1261007895663739 / 36028797018963968)"
      unfolding f64_mul_def
      by (rule f64_round_eval [where b = "-5" and q = "-57"])
         (simp_all add: power_int_minus rne_def)
    have s3: "f64_mul (8286623314361713 / 72057594037927936) (8286623314361713 / 72057594037927936) = Inr (952961681151597 / 72057594037927936)"
      unfolding f64_mul_def
      by (rule f64_round_eval [where b = "-7" and q = "-59"])
         (simp_all add: power_int_minus rne_def)
    have s4: "f64_mul 2 (1261007895663739 / 36028797018963968) = Inr (1261007895663739 / 18014398509481984)"
      unfolding f64_mul_def
      by (rule f64_round_eval [where b = "-4" and q = "-56"])
         (simp_all add: power_int_minus rne_def)
    have s5: "f64_add (3242591731706757 / 72057594037927936) (1261007895663739 / 18014398509481984) = Inr (8286623314361713 / 72057594037927936)"
      unfolding f64_add_def
      by (rule f64_round_eval [where b = "-4" and q = "-56"])
         (simp_all add: power_int_minus rne_def)
    have s6: "f64_sub (952961681151597 / 72057594037927936) (952961681151597 / 72057594037927936) = Inr 0"
      by (simp add: f64_sub_def f64_round_def)
    have s7: "f64_div 0 2 = Inr 0"
      by (simp add: f64_div_def f64_round_def)
    have s8: "f64_sub (3602879701896397 / 18014398509481984) (1261007895663739 / 18014398509481984) = Inr (1170935903116329 / 9007199254740992)"
      unfolding f64_sub_def
      by (rule f64_round_eval [where b = "-3" and q = "-55"])
         (simp_all add: power_int_minus rne_def)
    have s9: "f64_mul (1170935903116329 / 9007199254740992) (8286623314361713 / 72057594037927936) = Inr (4309044123468091 / 288230376151711744)"
      unfolding f64_mul_def
      by (rule f64_round_eval [where b = "-7" and q = "-59"])
         (simp_all add: power_int_minus rne_def)
    have s10: "f64_add 0 (4309044123468091 / 288230376151711744) = Inr (4309044123468091 / 288230376151711744)"
      unfolding f64_add_def
      by (rule f64_round_eval [where b = "-7" and q = "-59"])
         (simp_all add: power_int_minus rne_def)
    have s11: "f64_mul (884279719003555 / 281474976710656) (4309044123468091 / 288230376151711744) = Inr (1692157670285203 / 36028797018963968)"
      unfolding f64_mul_def
      by (rule f64_round_eval [where b = "-5" and q = "-57"])
         (simp_all add: power_int_minus rne_def)
    show ?thesis
      by (simp add: get_burn_area_per_segment_def np_get_def then_do_def np_pi_def s1 s2 s3 s4 s5 s6 s7 s8 s9 s10 s11)
  qed
  have second: "2 * (0.25 :: real) \<ge> 0.5
   \<and> get_burn_area_per_segment
        \<lparr>segment_count = 1, segment_spacing = 0, outer_diameter = 3,
          core_diameter = [0.5], segment_length = [0.5]\<rparr>
        0 (0.25) = Inr (884279719003555 / 2 ^ 46)"
  proof -
    have s1: "f64_sub 3 (1 / 2) = Inr (5 / 2)"
      unfolding f64_sub_def
      by (rule f64_round_eval [where b = "1" and q = "-51"])
         (simp_all add: power_int_minus rne_def)
    have s2: "f64_mul (1 / 2) (5 / 2) = Inr (5 / 4)"
      unfolding f64_mul_def
      by (rule f64_round_eval [where b = "0" and q = "-52"])
         (simp_all add: power_int_minus rne_def)
    have s3: "f64_mul 3 3 = Inr 9"
      unfolding f64_mul_def
      by (rule f64_round_eval [where b = "3" and q = "-49"])
         (simp_all add: power_int_minus rne_def)
    have s4: "f64_mul 2 (1 / 4) = Inr (1 / 2)"
      unfolding f64_mul_def
      by (rule f64_round_eval [where b = "-1" and q = "-53"])
         (simp_all add: power_int_minus rne_def)
    have s5: "f64_add (1 / 2) (1 / 2) = Inr 1"
      unfolding f64_add_def
      by (rule f64_round_eval [where b = "0" and q = "-52"])
         (simp_all add: power_int_minus rne_def)
    have s6: "f64_mul 1 1 = Inr 1"
      unfolding f64_mul_def
      by (rule f64_round_eval [where b = "0" and q = "-52"])
         (simp_all add: power_int_minus rne_def)
    have s7: "f64_sub 9 1 = Inr 8"
      unfolding f64_sub_def
      by (rule f64_round_eval [where b = "3" and q = "-49"])
         (simp_all add: power_int_minus rne_def)
    have s8: "f64_div 8 2 = Inr 4"
      unfolding f64_div_def
      by (simp, rule f64_round_eval [where b = "2" and q = "-50"])
         (simp_all add: power_int_minus rne_def)
    have s9: "f64_sub (1 / 2) (1 / 2) = Inr 0"
      by (simp add: f64_sub_def f64_round_def)
    have s10: "f64_mul 0 1 = Inr 0"
      by (simp add: f64_mul_def f64_round_def)
    have s11: "f64_add 4 0 = Inr 4"
      unfolding f64_add_def
      by (rule f64_round_eval [where b = "2" and q = "-50"])
         (simp_all add: power_int_minus rne_def)
    have s12: "f64_mul (884279719003555 / 281474976710656) 4 = Inr (884279719003555 / 70368744177664)"
      unfolding f64_mul_def
      by (rule f64_round_eval [where b = "3" and q = "-49"])
         (simp_all add: power_int_minus rne_def)
    show ?thesis
      by (simp add: get_burn_area_per_segment_def np_get_def then_do_def np_pi_def s1 s2 s3 s4 s5 s6 s7 s8 s9 s10 s11 s12)
  qed
  from first second show ?thesis by simp
qed

text \<open>
  C2, amended. For a segment \<open>j\<close> of a grain and a web greater than the wall
  thickness \<open>0.5 * (outer_diameter - core_diameter[j])\<close> as the code computes it, the
  burn area and the propellant volume returned are both exactly 0.
\<close>

theorem bates_zero_beyond_wall:
  assumes "np_get (core_diameter self) j = Inr D_core"
    and "f64_sub (outer_diameter self) D_core = Inr diff"
    and "f64_mul 0.5 diff = Inr wall"
    and "web > wall"
  shows "get_burn_area_per_segment self j web = Inr 0
       \<and> get_propellant_volume_per_segment self web j = Inr 0"
  using assms
  by (simp add: get_burn_area_per_segment_def get_propellant_volume_per_segment_def then_do_def)

text \<open>
  The segment of the scenario at the web 0.04 (\<open>5764607523034235 / 2 ^ 57\<close>), beyond
  its wall of 0.035.
\<close>

theorem bates_zero_beyond_wall_witness:
  "np_get (core_diameter
        \<lparr>segment_count = 1, segment_spacing = 0, outer_diameter = 8286623314361713 / 2 ^ 56,
          core_diameter = [3242591731706757 / 2 ^ 56], segment_length = [3602879701896397 / 2 ^ 54]\<rparr>) 0
     = Inr (3242591731706757 / 2 ^ 56)
   \<and> f64_sub (outer_diameter
        \<lparr>segment_count = 1, segment_spacing = 0, outer_diameter = 8286623314361713 / 2 ^ 56,
          core_diameter = [3242591731706757 / 2 ^ 56], segment_length = [3602879701896397 / 2 ^ 54]\<rparr>)
        (3242591731706757 / 2 ^ 56) = Inr (1261007895663739 / 2 ^ 54)
   \<and> f64_mul 0.5 (1261007895663739 / 2 ^ 54) = Inr (1261007895663739 / 2 ^ 55)
   \<and> (5764607523034235 / 2 ^ 57 :: real) > 1261007895663739 / 2 ^ 55
   \<and> get_burn_area_per_segment
        \<lparr>segment_count = 1, segment_spacing = 0, outer_diameter = 8286623314361713 / 2 ^ 56,
          core_diameter = [3242591731706757 / 2 ^ 56], segment_length = [3602879701896397 / 2 ^ 54]\<rparr>
        0 (5764607523034235 / 2 ^ 57) = Inr 0
   \<and> get_propellant_volume_per_segment
        \<lparr>segment_count = 1, segment_spacing = 0, outer_diameter = 8286623314361713 / 2 ^ 56,
          core_diameter = [3242591731706757 / 2 ^ 56], segment_length = [3602879701896397 / 2 ^ 54]\<rparr>
        (5764607523034235 / 2 ^ 57) 0 = Inr 0"
proof -
  have s1: "f64_sub (8286623314361713 / 72057594037927936) (3242591731706757 / 72057594037927936) = Inr (1261007895663739 / 18014398509481984)"
    unfolding f64_sub_def
    by (rule f64_round_eval [where b = "-4" and q = "-56"])
       (simp_all add: power_int_minus rne_def)
  have s2: "f64_mul (1 / 2) (1261007895663739 / 18014398509481984) = Inr (1261007895663739 / 36028797018963968)"
    unfolding f64_mul_def
    by (rule f64_round_eval [where b = "-5" and q = "-57"])
       (simp_all add: power_int_minus rne_def)
  have h1: "np_get (core_diameter
        \<lparr>segment_count = 1, segment_spacing = 0, outer_diameter = 8286623314361713 / 2 ^ 56,
          core_diameter = [3242591731706757 / 2 ^ 56], segment_length = [3602879701896397 / 2 ^ 54]\<rparr>) 0
     = Inr (3242591731706757 / 2 ^ 56)"
    by (simp add: np_get_def)
  have h2: "f64_sub (outer_diameter
        \<lparr>segment_count = 1, segment_spacing = 0, outer_diameter = 8286623314361713 / 2 ^ 56,
          core_diameter = [3242591731706757 / 2 ^ 56], segment_length = [3602879701896397 / 2 ^ 54]\<rparr>)
        (3242591731706757 / 2 ^ 56) = Inr (1261007895663739 / 2 ^ 54)"
    by (simp add: s1)
  have h3: "f64_mul 0.5 (1261007895663739 / 2 ^ 54) = Inr (1261007895663739 / 2 ^ 55)"
    by (simp add: s2)
  have h4: "(5764607523034235 / 2 ^ 57 :: real) > 1261007895663739 / 2 ^ 55" by simp
  from bates_zero_beyond_wall [OF h1 h2 h3 h4] h1 h2 h3 h4 show ?thesis by simp
qed

text \<open>
  C10. A segment and a web at which the burn area and the propellant volume
  returned are both below zero: outer diameter 1, core 0.125, length 0.125 and
  web 0.375. The dimensions are physical (\<open>0 < segment_length\<close>,
  \<open>0 < core_diameter < outer_diameter\<close>, \<open>0 \<le> web\<close>), the segment is burned through
  along the axis (\<open>2 * web > segment_length\<close>) and not radially
  (\<open>web \<le> 0.5 * (outer_diameter - core_diameter)\<close>); the area returned is
  \<open>-1.3499030933393643\<close> and the volume \<open>-0.11504855909142309\<close>.
\<close>

theorem bates_negative_when_burned_through_axially:
  "(0::real) < 0.125 \<and> (0::real) < 0.125 \<and> (0.125 :: real) < 1
   \<and> (0::real) \<le> 0.375
   \<and> 2 * (0.375 :: real) > 0.125
   \<and> (0.375 :: real) \<le> 0.5 * (1 - 0.125)
   \<and> get_burn_area_per_segment
        \<lparr>segment_count = 1, segment_spacing = 0, outer_diameter = 1,
          core_diameter = [0.125], segment_length = [0.125]\<rparr>
        0 (0.375) = Inr (- (6079423068149441 / 2 ^ 52))
   \<and> (- (6079423068149441 / 2 ^ 52) :: real) < 0
   \<and> get_propellant_volume_per_segment
        \<lparr>segment_count = 1, segment_spacing = 0, outer_diameter = 1,
          core_diameter = [0.125], segment_length = [0.125]\<rparr>
        (0.375) 0 = Inr (- (1036265295707291 / 2 ^ 53))
   \<and> (- (1036265295707291 / 2 ^ 53) :: real) < 0"
proof -
  have s1: "f64_sub 1 (1 / 8) = Inr (7 / 8)"
    unfolding f64_sub_def
    by (rule f64_round_eval [where b = "-1" and q = "-53"])
       (simp_all add: power_int_minus rne_def)
  have s2: "f64_mul (1 / 2) (7 / 8) = Inr (7 / 16)"
    unfolding f64_mul_def
    by (rule f64_round_eval [where b = "-2" and q = "-54"])
       (simp_all add: power_int_minus rne_def)
  have s3: "f64_mul 1 1 = Inr 1"
    unfolding f64_mul_def
    by (rule f64_round_eval [where b = "0" and q = "-52"])
       (simp_all add: power_int_minus rne_def)
  have s4: "f64_mul 2 (3 / 8) = Inr (3 / 4)"
    unfolding f64_mul_def
    by (rule f64_round_eval [where b = "-1" and q = "-53"])
       (simp_all add: power_int_minus rne_def)
  have s5: "f64_add (1 / 8) (3 / 4) = Inr (7 / 8)"
    unfolding f64_add_def
    by (rule f64_round_eval [where b = "-1" and q = "-53"])
       (simp_all add: power_int_minus rne_def)
  have s6: "f64_mul (7 / 8) (7 / 8) = Inr (49 / 64)"
    unfolding f64_mul_def
    by (rule f64_round_eval [where b = "-1" and q = "-53"])
       (simp_all add: power_int_minus rne_def)
  have s7: "f64_sub 1 (49 / 64) = Inr (15 / 64)"
    unfolding f64_sub_def
    by (rule f64_round_eval [where b = "-3" and q = "-55"])
       (simp_all add: power_int_minus rne_def)
  have s8: "f64_div (15 / 64) 2 = Inr (15 / 128)"
    unfolding f64_div_def
    by (simp, rule f64_round_eval [where b = "-4" and q = "-56"])
       (simp_all add: power_int_minus rne_def)
  have s9: "f64_sub (1 / 8) (3 / 4) = Inr (- (5 / 8))"
    unfolding f64_sub_def
    by (rule f64_round_eval [where b = "-1" and q = "-53"])
       (simp_all add: power_int_minus rne_def)
  have s10: "f64_mul (- (5 / 8)) (7 / 8) = Inr (- (35 / 64))"
    unfolding f64_mul_def
    by (rule f64_round_eval [where b = "-1" and q = "-53"])
       (simp_all add: power_int_minus rne_def)
  have s11: "f64_add (15 / 128) (- (35 / 64)) = Inr (- (55 / 128))"
    unfolding f64_add_def
    by (rule f64_round_eval [where b = "-2" and q = "-54"])
       (simp_all add: power_int_minus rne_def)
  have s12: "f64_mul (884279719003555 / 281474976710656) (- (55 / 128)) = Inr (- (6079423068149441 / 4503599627370496))"
    unfolding f64_mul_def
    by (rule f64_round_eval [where b = "0" and q = "-52"])
       (simp_all add: power_int_minus rne_def)
  have s13: "f64_div (884279719003555 / 281474976710656) 4 = Inr (884279719003555 / 1125899906842624)"
    unfolding f64_div_def
    by (simp, rule f64_round_eval [where b = "-1" and q = "-53"])
       (simp_all add: power_int_minus rne_def)
  have s14: "f64_mul (15 / 64) (- (5 / 8)) = Inr (- (75 / 512))"
    unfolding f64_mul_def
    by (rule f64_round_eval [where b = "-3" and q = "-55"])
       (simp_all add: power_int_minus rne_def)
  have s15: "f64_mul (884279719003555 / 1125899906842624) (- (75 / 512)) = Inr (- (1036265295707291 / 9007199254740992))"
    unfolding f64_mul_def
    by (rule f64_round_eval [where b = "-4" and q = "-56"])
       (simp_all add: power_int_minus rne_def)
  show ?thesis
    by (simp add: get_burn_area_per_segment_def get_propellant_volume_per_segment_def
          np_get_def then_do_def np_pi_def s1 s2 s3 s4 s5 s6 s7 s8 s9 s10 s11 s12 s13 s14 s15)
qed

text \<open>
  With at least one segment and one time step, the first pass through the innermost
  loop of \<open>get_mass_flux_per_segment\<close> already raises.
\<close>

lemma py_range_pos: "1 \<le> n \<Longrightarrow> py_range n = 0 # [1..n - 1]"
  by (simp add: py_range_def upto_rec1)

lemma mass_flux_k_step_raises:
  assumes "1 \<le> segment_count self" and "x \<noteq> []"
  shows "mass_flux_k_step self x 0 0 0
           (replicate (nat (segment_count self)) (replicate (length x) 0)) = Inl TypeError"
proof -
  obtain x0 xs where x: "x = x0 # xs" using assms(2) by (cases x) auto
  obtain m where m: "nat (segment_count self) = Suc m"
    using assms(1) by (cases "nat (segment_count self)") auto
  show ?thesis
    by (simp add: mass_flux_k_step_def np_get2_def np_get_def then_do_def m x
          call_get_burn_area_def)
qed

lemma get_mass_flux_per_segment_always_raises:
  assumes "1 \<le> segment_count self" and "burn_rate \<noteq> []" and "x \<noteq> []"
  shows "get_mass_flux_per_segment get_circle_area self burn_rate propellant_density x
           = Inl TypeError"
proof -
  have n: "py_range (segment_count self) = 0 # [1..segment_count self - 1]"
    using assms(1) by (rule py_range_pos)
  have b: "py_range (int (length burn_rate)) = 0 # [1..int (length burn_rate) - 1]"
    using assms(2) by (intro py_range_pos) (cases burn_rate, auto)
  have k: "py_range 1 = [0]" by (simp add: py_range_def upto_rec1)
  have z: "np_zeros2 (segment_count self) (length x)
             = Inr (replicate (nat (segment_count self)) (replicate (length x) 0))"
    using assms(1) by (simp add: np_zeros2_def)
  show ?thesis
    by (simp add: get_mass_flux_per_segment_def z n b k mass_flux_i_step_def
          mass_flux_k_step_raises [OF assms(1,3)] then_do_def)
qed

text \<open>
  C3. The claim: \<open>get_mass_flux_per_segment\<close> completes and returns at \<open>(j, i)\<close> the
  burn areas of the segments \<open>0..j\<close> times density and burn rate over the core
  area. The source calls \<open>self.get_burn_area(x[i], k)\<close>, and \<open>get_burn_area\<close>
  takes the web only: for one segment and one time step the first pass through the
  innermost loop raises \<open>TypeError\<close>, whatever \<open>get_circle_area\<close> is.
\<close>

theorem get_mass_flux_per_segment_raises:
  "get_mass_flux_per_segment get_circle_area
     \<lparr>segment_count = 1, segment_spacing = 0, outer_diameter = 0.115,
       core_diameter = [0.045], segment_length = [0.2]\<rparr>
     [1] 1 [0] = Inl TypeError"
  by (simp add: get_mass_flux_per_segment_def np_zeros2_def py_range_def upto_rec1 then_do_def
        mass_flux_i_step_def mass_flux_k_step_def np_get2_def np_get_def call_get_burn_area_def)

subsection \<open>Isentropic flow: exit Mach number\<close>

lemma exit_mach_residual_value:
  assumes "1 < k" and "0 < x"
  shows "exit_mach_residual k E x
           = Inr (((1 + 0.5 * (k - 1) * x\<^sup>2) / (1 + 0.5 * (k - 1))) powr ((k + 1) / (2 * (k - 1))) / x - E)"
proof -
  have den_pos: "0 < 1 + 0.5 * (k - 1)"
    using assms(1) by (intro add_pos_nonneg) simp_all
  then have den: "1 + 0.5 * (k - 1) \<noteq> 0" by simp
  have "0 < 1 + 0.5 * (k - 1) * x\<^sup>2"
    using assms by (intro add_pos_nonneg) simp_all
  then have base: "0 < (1 + 0.5 * (k - 1) * x\<^sup>2) / (1 + 0.5 * (k - 1))"
    using den_pos by (rule divide_pos_pos)
  have e: "2 * (k - 1) \<noteq> 0" "(k + 1) / (2 * (k - 1)) \<noteq> 0" using assms(1) by simp_all
  have x: "x \<noteq> 0" using assms(2) by simp
  have pw: "np_pow ((1 + 0.5 * (k - 1) * x\<^sup>2) / (1 + 0.5 * (k - 1))) ((k + 1) / (2 * (k - 1)))
        = Inr (((1 + 0.5 * (k - 1) * x\<^sup>2) / (1 + 0.5 * (k - 1))) powr ((k + 1) / (2 * (k - 1))))"
    using base e(2) by (rule np_pow_pos)
  show ?thesis
    using den e(1) x
    by (simp only: exit_mach_residual_def np_div_def py_div_def if_False then_do_Inr pw)
qed

text \<open>
  C5. The claim: \<open>get_exit_mach\<close> computes the root of the equation from the
  initial guess 10, and fails with \<open>NonConvergenceError\<close> when the solver does not
  converge. The module imports numpy only, so the name \<open>scipy\<close> of line 36 is not
  bound: every call raises \<open>NameError\<close>, for every \<open>k\<close> and \<open>E\<close> and whatever the
  solver would be.
\<close>

theorem get_exit_mach_name_error:
  "get_exit_mach fsolve k E = Inl NameError"
  by (simp add: get_exit_mach_def load_global_def isentropic_flow_globals_def then_do_def)

subsection \<open>Isentropic flow: thrust coefficient\<close>

lemma get_thrust_coeff_clamped:
  "get_thrust_coeff P0 P_exit P_external E k n_cf = Inr (Cf, Cf_ideal) \<Longrightarrow> 0 \<le> Cf \<and> 0 \<le> Cf_ideal"
  by (auto simp add: get_thrust_coeff_def then_do_def Let_def split: sum.splits if_splits)

lemma get_thrust_coeff_returns:
  assumes "1 < k" and "0 < P0" and "0 \<le> P_exit" and "P_exit \<le> P0"
  shows "\<exists>Cf Cf_ideal. get_thrust_coeff P0 P_exit P_external E k n_cf = Inr (Cf, Cf_ideal)"
proof -
  have P_r: "0 \<le> P_exit / P0" "P_exit / P0 \<le> 1" using assms by simp_all
  have e2: "0 < (k - 1) / k" using assms(1) by simp
  have e1: "0 < (k + 1) / (k - 1)" using assms(1) by simp
  have base: "0 \<le> 2 / (k + 1)" using assms(1) by simp
  have d: "(P_exit / P0) powr ((k - 1) / k) \<le> 1"
    using P_r e2 by (simp add: powr_le1)
  have a: "0 \<le> 2 * k\<^sup>2 / (k - 1)" using assms(1) by simp
  have radicand: "\<not> 2 * k\<^sup>2 / (k - 1) * (2 / (k + 1)) powr ((k + 1) / (k - 1))
                     * (1 - (P_exit / P0) powr ((k - 1) / k)) < 0"
  proof -
    have "0 \<le> 2 * k\<^sup>2 / (k - 1) * (2 / (k + 1)) powr ((k + 1) / (k - 1))"
      using a by (intro mult_nonneg_nonneg) simp_all
    moreover have "0 \<le> 1 - (P_exit / P0) powr ((k - 1) / k)" using d by simp
    ultimately have "0 \<le> 2 * k\<^sup>2 / (k - 1) * (2 / (k + 1)) powr ((k + 1) / (k - 1))
                     * (1 - (P_exit / P0) powr ((k - 1) / k))"
      by (rule mult_nonneg_nonneg)
    then show ?thesis by (simp only: not_less)
  qed
  have nz: "P0 \<noteq> 0" "k - 1 \<noteq> 0" "k + 1 \<noteq> 0" "k \<noteq> 0" using assms by simp_all
  show ?thesis
    by (simp only: get_thrust_coeff_def py_div_defined [OF nz(1)] py_div_defined [OF nz(2)]
          py_div_defined [OF nz(3)] py_div_defined [OF nz(4)] then_do_Inr
          py_pow_nonneg [OF base e1] py_pow_nonneg [OF P_r(1) e2] np_sqrt_def radicand if_False
          Let_def)
       blast
qed

text \<open>
  C6. Whatever the arguments, both values that \<open>get_thrust_coeff\<close> returns are at
  least 0; and it does return for every \<open>k > 1\<close>, chamber pressure above 0 and exit
  pressure between 0 and the chamber pressure.
\<close>

theorem get_thrust_coeff_never_negative:
  "(\<forall>Cf Cf_ideal. get_thrust_coeff P0 P_exit P_external E k n_cf = Inr (Cf, Cf_ideal)
        \<longrightarrow> 0 \<le> Cf \<and> 0 \<le> Cf_ideal)
   \<and> (1 < k \<and> 0 < P0 \<and> 0 \<le> P_exit \<and> P_exit \<le> P0
        \<longrightarrow> (\<exists>Cf Cf_ideal. get_thrust_coeff P0 P_exit P_external E k n_cf = Inr (Cf, Cf_ideal)))"
  using get_thrust_coeff_clamped get_thrust_coeff_returns by blast

text \<open>
  At \<open>P0 = P_exit = 1\<close>, \<open>P_external = 2\<close>, \<open>E = 4\<close>, \<open>k = 3\<close>, \<open>n_cf = 1\<close> the ideal
  coefficient is 0 and the coefficient before the clamp is \<open>-4\<close>: both come back 0.
\<close>

theorem get_thrust_coeff_never_negative_witness:
  "(1::real) < 3 \<and> (0::real) < 1 \<and> (0::real) \<le> 1 \<and> (1::real) \<le> 1
   \<and> (\<exists>Cf Cf_ideal. get_thrust_coeff 1 1 2 4 3 1 = Inr (Cf, Cf_ideal) \<and> 0 \<le> Cf \<and> 0 \<le> Cf_ideal)
   \<and> get_thrust_coeff 1 1 2 4 3 1 = Inr (0, 0)"
proof -
  have clamped: "get_thrust_coeff 1 1 2 4 3 1 = Inr (0, 0)"
    by (simp add: get_thrust_coeff_def then_do_def py_div_def py_pow_def np_sqrt_def)
  from get_thrust_coeff_never_negative [of 1 1 2 4 3 1] clamped show ?thesis by simp
qed

subsection \<open>Correction factors\<close>

lemma correction_constants_gap:
  assumes "M \<noteq> 0" and "1 / M < 0.9" and "0.0245 \<le> D" and "D < 0.0254"
  shows "correction_constants M D C7 = Inr (Some 1, None)"
  using assms by (simp add: correction_constants_def py_div_def then_do_def)

text \<open>
  C4. The claim: every conversion of the throat diameter to inches divides by
  0.0254. The first test of the family \<open>1 / M_ch < 0.9\<close> divides by 0.0245. A throat
  of 0.025 m is below one inch (\<open>0.025 / 0.0254 < 1\<close>); the family \<open>1 / M_ch \<ge> 0.9\<close>
  gives it the constants of the band below one inch, and the family
  \<open>1 / M_ch < 0.9\<close> gives it none.
\<close>

theorem correction_constants_divisor_0245:
  "(0.025::real) / 0.0254 < 1
   \<and> correction_constants 1 0.025 C7 = Inr (Some 0.5, Some (9, 1, 1))
   \<and> correction_constants 40 0.025 C7 = Inr (Some 1, None)"
  by (simp add: correction_constants_def py_div_def then_do_def)

text \<open>
  On a subcritical input on which nothing raises before line 108, the function
  stops at line 108 with \<open>NameError\<close>: the table is never reached.
\<close>

lemma correction_factors_subcritical_name_error:
  assumes "P0 \<noteq> 0" and "P_external / P0 \<le> critical_pressure_ratio"
    and "0 < D_throat structure" and "0 \<le> P0_psi" and "0 \<le> qsi_ch propellant"
    and "Exp_ratio structure \<noteq> 0" and "P0_psi < 200 \<or> Isp_shifting propellant \<noteq> 0"
  shows "get_operational_correction_factors get_circle_area P0 P_external P0_psi propellant
           structure critical_pressure_ratio V0 t = Inl NameError"
proof -
  have D_pos: "0 < D_throat structure / 0.0254" using assms(3) by simp
  have p8: "py_pow P0_psi 0.8 = Inr (P0_psi powr 0.8)"
    and p33: "py_pow P0_psi 0.33 = Inr (P0_psi powr 0.33)"
    and s33: "py_pow (qsi_ch propellant) 0.33 = Inr (qsi_ch propellant powr 0.33)"
    using assms(4,5) by (simp_all add: py_pow_nonneg)
  have d2: "py_pow (D_throat structure / 0.0254) 0.2 = Inr ((D_throat structure / 0.0254) powr 0.2)"
    using D_pos by (simp add: py_pow_def)
  have d2_nz: "(D_throat structure / 0.0254) powr 0.2 \<noteq> 0"
    using D_pos by simp
  obtain e9 where e9: "py_pow (Exp_ratio structure) (- 9) = Inr e9"
    using py_pow_minus_nine [OF assms(6)] by blast
  have "\<exists>n. (if P0_psi \<ge> 200 then
          then_do (py_div (Isp_frozen propellant) (Isp_shifting propellant)) (\<lambda>r.
            py_div (33.3 * 200 * r) P0_psi)
        else Inr 0) = Inr n"
    using assms(7) by (auto simp add: py_div_def then_do_def)
  then obtain n where n: "(if P0_psi \<ge> 200 then
          then_do (py_div (Isp_frozen propellant) (Isp_shifting propellant)) (\<lambda>r.
            py_div (33.3 * 200 * r) P0_psi)
        else Inr 0) = Inr n" by blast
  have ratio: "py_div P_external P0 = Inr (P_external / P0)"
    using assms(1) by (simp add: py_div_def)
  have q: "py_div a ((D_throat structure / 0.0254) powr 0.2)
             = Inr (a / (D_throat structure / 0.0254) powr 0.2)" for a
    using d2_nz by (simp only: py_div_def if_False)
  have unbound: "load_global ''get_circle_area'' get_circle_area = Inl NameError"
    by (simp add: load_global_def isentropic_flow_globals_def)
  show ?thesis
    by (simp only: get_operational_correction_factors_def n ratio assms(2) if_True
          p8 d2 q e9 p33 s33 unbound then_do_Inr then_do_Inl)
qed

text \<open>
  C9. The claim: for \<open>1 / M_ch < 0.9\<close>, a subcritical pressure ratio and a throat
  diameter with \<open>0.0245 \<le> D_throat < 0.0254\<close>, no branch of the table assigns
  \<open>C3, C5, C6\<close>, and the function fails at line 136 on the unassigned variables.
  At such an input (\<open>M_ch = 40\<close>, \<open>D_throat = 0.025\<close>, \<open>P_external / P0 = 0.025\<close>) the
  table does assign \<open>C4\<close> only, and line 136 on that outcome raises
  \<open>UnboundLocalError\<close>; but the function never gets there: line 108 raises
  \<open>NameError\<close>, whatever \<open>get_circle_area\<close> would be.
\<close>

theorem correction_factors_name_error_before_table:
  "correction_constants 40 0.025 C7 = Inr (Some 1, None)
   \<and> two_phase_loss 580 0.4 8 0.025 C7 (Some 1, None) = Inl UnboundLocalError
   \<and> get_operational_correction_factors get_circle_area 4000000 100000 580
        \<lparr>Isp_frozen = 150, Isp_shifting = 152, qsi_ch = 0.4, M_ch = 40\<rparr>
        \<lparr>C1 = 0.00506, C2 = 0, D_throat = 0.025, Exp_ratio = 8\<rparr>
        0.56 0.001 1 = Inl NameError"
proof -
  have table: "correction_constants 40 0.025 C7 = Inr (Some 1, None)"
    by (rule correction_constants_gap) simp_all
  have line_136: "two_phase_loss 580 0.4 8 0.025 C7 (Some 1, None) = Inl UnboundLocalError"
    by (simp add: two_phase_loss_def)
  have run: "get_operational_correction_factors get_circle_area 4000000 100000 580
        \<lparr>Isp_frozen = 150, Isp_shifting = 152, qsi_ch = 0.4, M_ch = 40\<rparr>
        \<lparr>C1 = 0.00506, C2 = 0, D_throat = 0.025, Exp_ratio = 8\<rparr>
        0.56 0.001 1 = Inl NameError"
    by (rule correction_factors_subcritical_name_error) simp_all
  from table line_136 run show ?thesis by simp
qed



end
